theory Spec2Isabelle
  imports Main "HOL-Library.Word"
begin

section \<open>Go values used by the package\<close>

text \<open>
  A Go \<open>error\<close> is either made by \<open>errors.New(msg)\<close> or by
  \<open>fmt.Errorf(format, err)\<close> with a \<open>%w\<close> verb, which keeps the wrapped cause.
  A panic carries the value it was raised with; a nil pointer dereference is the
  runtime's own panic.
\<close>

datatype error = New string | Errorf string error

definition errUnableToQueryTuples :: string where
  "errUnableToQueryTuples = ''unable to query tuples: %w''"

definition errClosedIterator :: error where
  "errClosedIterator = New ''unable to iterate: iterator closed''"

section \<open>The query builder (squirrel) and the rows it selects\<close>

text \<open>
  squirrel builds the statement and sqlx runs it; both are libraries the package
  imports, and what follows is their documented behaviour as far as \<open>query.go\<close>
  uses it. The column and table constants of the package (declared in another
  file) are identifiers here. A value bound into a statement is a string or a
  \<open>uint64\<close>.
\<close>

datatype column =
    colNamespace | colObjectID | colRelation
  | colUsersetNamespace | colUsersetObjectID | colUsersetRelation
  | colCreatedTxn | colDeletedTxn

datatype table = tableTuple

datatype arg = String string | Uint64 "64 word"

text \<open>
  The predicates of squirrel that the package builds: \<open>sq.Eq\<close>, \<open>sq.LtOrEq\<close> and
  \<open>sq.Gt\<close> are maps from a column to a value (all entries must hold), \<open>sq.Or\<close> is
  a list of predicates (one must hold).
\<close>

datatype Sqlizer =
    Eq "(column \<times> arg) list"
  | LtOrEq "(column \<times> arg) list"
  | Gt "(column \<times> arg) list"
  | Or "Sqlizer list"

text \<open>
  A \<open>SelectBuilder\<close> is a persistent value: \<open>Where\<close> returns a builder with the
  predicate appended to the where-parts and leaves its receiver as it was.
\<close>

record SelectBuilder =
  Columns :: "column list"
  From :: "table option"
  WhereParts :: "Sqlizer list"

definition Select :: "column list \<Rightarrow> SelectBuilder" where
  "Select cols = \<lparr>Columns = cols, From = None, WhereParts = []\<rparr>"

definition From_table :: "SelectBuilder \<Rightarrow> table \<Rightarrow> SelectBuilder" where
  "From_table b t = b\<lparr>From := Some t\<rparr>"

definition Where :: "SelectBuilder \<Rightarrow> Sqlizer \<Rightarrow> SelectBuilder" where
  "Where b pred = b\<lparr>WhereParts := WhereParts b @ [pred]\<rparr>"

text \<open>
  The compiled request: the statement \<open>ToSql\<close> produces, kept as its syntax tree
  (the where-parts are joined by AND). Compilation fails on a builder without
  result columns.
\<close>

datatype Sql = SELECT "column list" "table option" "Sqlizer list"

definition ToSql :: "SelectBuilder \<Rightarrow> error + Sql" where
  "ToSql b =
     (if Columns b = [] then Inl (New ''select statements must have at least one result column'')
      else Inr (SELECT (Columns b) (From b) (WhereParts b)))"

text \<open>
  A stored row of the tuple table: the six string columns and the two revision
  columns. The storage engine evaluates a statement's where-clause on it.
\<close>

record StoredRow =
  row_namespace :: string
  row_object_id :: string
  row_relation :: string
  row_userset_namespace :: string
  row_userset_object_id :: string
  row_userset_relation :: string
  row_created_transaction :: "64 word"
  row_deleted_transaction :: "64 word"

fun column_value :: "StoredRow \<Rightarrow> column \<Rightarrow> arg" where
  "column_value r colNamespace = String (row_namespace r)"
| "column_value r colObjectID = String (row_object_id r)"
| "column_value r colRelation = String (row_relation r)"
| "column_value r colUsersetNamespace = String (row_userset_namespace r)"
| "column_value r colUsersetObjectID = String (row_userset_object_id r)"
| "column_value r colUsersetRelation = String (row_userset_relation r)"
| "column_value r colCreatedTxn = Uint64 (row_created_transaction r)"
| "column_value r colDeletedTxn = Uint64 (row_deleted_transaction r)"

text \<open>
  Ordering comparisons are only ever built on the revision columns; a comparison
  between a string and a number selects nothing.
\<close>

fun arg_le :: "arg \<Rightarrow> arg \<Rightarrow> bool" where
  "arg_le (Uint64 a) (Uint64 b) = (a \<le> b)"
| "arg_le _ _ = False"

fun arg_gt :: "arg \<Rightarrow> arg \<Rightarrow> bool" where
  "arg_gt (Uint64 a) (Uint64 b) = (a > b)"
| "arg_gt _ _ = False"

fun holds :: "Sqlizer \<Rightarrow> StoredRow \<Rightarrow> bool" where
  "holds (Eq m) r = list_all (\<lambda>(c, v). column_value r c = v) m"
| "holds (LtOrEq m) r = list_all (\<lambda>(c, v). arg_le (column_value r c) v) m"
| "holds (Gt m) r = list_all (\<lambda>(c, v). arg_gt (column_value r c) v) m"
| "holds (Or ps) r = list_ex (\<lambda>p. holds p r) ps"

fun accepts :: "Sql \<Rightarrow> StoredRow \<Rightarrow> bool" where
  "accepts (SELECT cols tbl ws) r = list_all (\<lambda>p. holds p r) ws"

section \<open>The storage engine (sqlx) as seen by the package\<close>

text \<open>
  \<open>Beginx\<close> gives a transaction or an error; \<open>Queryx\<close> gives a row cursor or an
  error. A cursor yields rows until it ends, each \<open>Scan\<close> into six strings
  succeeding or failing, and \<open>rows.Err()\<close> reports why iteration stopped.
  The calls made on the engine are recorded in order; \<open>Queryx\<close> exists on the
  database handle and on a transaction.
\<close>

type_synonym Tx = nat

type_synonym scanned = "string \<times> string \<times> string \<times> string \<times> string \<times> string"

record Rows =
  scans :: "(error + scanned) list"
  rows_Err :: "error option"

record DB =
  Beginx :: "error + Tx"
  Queryx :: "Sql \<Rightarrow> error + Rows"

datatype Effect =
    DB_Beginx
  | DB_Queryx Sql
  | Tx_Queryx Tx Sql
  | Tx_Rollback Tx
  | SetFinalizer Sql

datatype panic =
    PanicString string
  | PanicSprintf string Sql
  | NilPointerDereference

section \<open>Tuples\<close>

record ObjectAndRelation =
  Namespace :: string
  ObjectId :: string
  Relation :: string

datatype User = User_Userset (Userset: ObjectAndRelation)

record RelationTuple =
  ObjectAndRelation :: ObjectAndRelation
  User :: User

section \<open>query.go\<close>

definition queryTuples :: SelectBuilder where
  "queryTuples =
     From_table
       (Select [colNamespace, colObjectID, colRelation,
                colUsersetNamespace, colUsersetObjectID, colUsersetRelation])
       tableTuple"

record pgDatastore =
  db :: DB

record pgTupleQuery =
  db :: DB
  query :: SelectBuilder
  namespace :: string
  relation :: string

text \<open>
  \<open>liveDeletedTxnID\<close> is declared in another file of the package; it is a
  parameter here.
\<close>

definition QueryTuples :: "64 word \<Rightarrow> pgDatastore \<Rightarrow> string \<Rightarrow> 64 word \<Rightarrow> pgTupleQuery" where
  "QueryTuples liveDeletedTxnID pgd ns revision =
     \<lparr>db = pgDatastore.db pgd,
      query =
        Where
          (Where
            (Where queryTuples (Eq [(colNamespace, String ns)]))
            (LtOrEq [(colCreatedTxn, Uint64 revision)]))
          (Or [Eq [(colDeletedTxn, Uint64 liveDeletedTxnID)],
               Gt [(colDeletedTxn, Uint64 revision)]]),
      namespace = ns,
      relation = []\<rparr>"

definition WithObjectID :: "pgTupleQuery \<Rightarrow> string \<Rightarrow> pgTupleQuery" where
  "WithObjectID ptq objectID =
     ptq\<lparr>query := Where (query ptq) (Eq [(colObjectID, String objectID)])\<rparr>"

definition WithRelation :: "pgTupleQuery \<Rightarrow> string \<Rightarrow> pgTupleQuery" where
  "WithRelation ptq rel =
     ptq\<lparr>query := Where (query ptq) (Eq [(colRelation, String rel)]),
         relation := rel\<rparr>"

text \<open>
  \<open>userset\<close> is a pointer; reading a field through a nil pointer panics.
\<close>

definition WithUserset :: "pgTupleQuery \<Rightarrow> ObjectAndRelation option \<Rightarrow> panic + pgTupleQuery" where
  "WithUserset ptq userset =
     (case userset of
        None \<Rightarrow> Inl NilPointerDereference
      | Some u \<Rightarrow>
          Inr (ptq\<lparr>query := Where (query ptq)
                 (Eq [(colUsersetNamespace, String (Namespace u)),
                      (colUsersetObjectID, String (ObjectId u)),
                      (colUsersetRelation, String (Relation u))])\<rparr>))"

record pgTupleIterator =
  tuples :: "RelationTuple list"
  closed :: bool
  err :: "error option"

text \<open>
  One turn of the loop over the cursor (lines 93 to 109): a new tuple whose six
  fields are the strings \<open>Scan\<close> wrote.
\<close>

fun nextTuple :: "scanned \<Rightarrow> RelationTuple" where
  "nextTuple (ns, oid, rel, uns, uoid, urel) =
     \<lparr>ObjectAndRelation = \<lparr>Namespace = ns, ObjectId = oid, Relation = rel\<rparr>,
      User = User_Userset \<lparr>Namespace = uns, ObjectId = uoid, Relation = urel\<rparr>\<rparr>"

text \<open>The loop (lines 91 to 115), with the slice \<open>tuples\<close> it appends to.\<close>

fun scanRows :: "(error + scanned) list \<Rightarrow> RelationTuple list \<Rightarrow> error + RelationTuple list" where
  "scanRows [] ts = Inr ts"
| "scanRows (Inl e # rest) ts = Inl (Errorf errUnableToQueryTuples e)"
| "scanRows (Inr row # rest) ts = scanRows rest (ts @ [nextTuple row])"

text \<open>
  The finalizer registered on the iterator (lines 124 to 132); it captures the
  compiled statement for its message.
\<close>

definition finalizer :: "Sql \<Rightarrow> pgTupleIterator \<Rightarrow> panic option" where
  "finalizer sql iter =
     (if \<not> closed iter
      then Some (PanicSprintf
        ''Tuple iterator garbage collected before Close() was called\<newline> sql: %s\<newline> args: %#v\<newline>'' sql)
      else None)"

text \<open>
  \<open>Execute\<close> after the deferred rollback has been registered (lines 77 to 134).
  The result is Go's pair of an iterator and an error, with the engine calls made.
\<close>

definition Execute_deferred ::
  "pgTupleQuery \<Rightarrow> Tx \<Rightarrow> error option \<Rightarrow> (pgTupleIterator option \<times> error option) \<times> Effect list" where
  "Execute_deferred ptq tx err0 =
     (case err0 of
        Some e \<Rightarrow> ((None, Some e), [])
      | None \<Rightarrow>
     (case ToSql (query ptq) of
        Inl e \<Rightarrow> ((None, Some (Errorf errUnableToQueryTuples e)), [])
      | Inr sql \<Rightarrow>
     (case Queryx (pgTupleQuery.db ptq) sql of
        Inl e \<Rightarrow> ((None, Some (Errorf errUnableToQueryTuples e)), [DB_Queryx sql])
      | Inr rows \<Rightarrow>
     (case scanRows (scans rows) [] of
        Inl e \<Rightarrow> ((None, Some e), [DB_Queryx sql])
      | Inr ts \<Rightarrow>
     (case rows_Err rows of
        Some e \<Rightarrow> ((None, Some (Errorf errUnableToQueryTuples e)), [DB_Queryx sql])
      | None \<Rightarrow>
          ((Some \<lparr>tuples = ts, closed = False, err = None\<rparr>, None),
           [DB_Queryx sql, SetFinalizer sql]))))))"

text \<open>
  \<open>Execute\<close>: begin a transaction; on failure return before anything is deferred;
  otherwise run the rest and roll the transaction back on the way out. After the
  first test \<open>err\<close> is nil, which is what the second test of line 77 sees.
\<close>

definition Execute :: "pgTupleQuery \<Rightarrow> (pgTupleIterator option \<times> error option) \<times> Effect list" where
  "Execute ptq =
     (case Beginx (pgTupleQuery.db ptq) of
        Inl e \<Rightarrow> ((None, Some (Errorf errUnableToQueryTuples e)), [DB_Beginx])
      | Inr tx \<Rightarrow>
          (case Execute_deferred ptq tx None of
             (res, effs) \<Rightarrow> (res, DB_Beginx # effs @ [Tx_Rollback tx])))"

definition Next :: "pgTupleIterator \<Rightarrow> RelationTuple option \<times> pgTupleIterator" where
  "Next pti =
     (if closed pti then (None, pti\<lparr>err := Some errClosedIterator\<rparr>)
      else (case tuples pti of
              first # rest \<Rightarrow> (Some first, pti\<lparr>tuples := rest\<rparr>)
            | [] \<Rightarrow> (None, pti)))"

definition Err :: "pgTupleIterator \<Rightarrow> error option" where
  "Err pti = err pti"

definition Close :: "pgTupleIterator \<Rightarrow> panic + pgTupleIterator" where
  "Close pti =
     (if closed pti then Inl (PanicString ''postgres iterator double closed'')
      else Inr (pti\<lparr>tuples := [], closed := True\<rparr>))"

text \<open>
  The Go runtime's side of \<open>runtime.SetFinalizer\<close>, from its documentation:
  some time after the program can no longer reach an object, the runtime may run
  the function registered for it; nothing guarantees that it does so before the
  program ends. \<open>finalizers\<close> reads the registrations off the calls \<open>Execute\<close>
  made. \<open>abandoned\<close> lists what can come of an iterator that its consumer has
  dropped in the given state: \<open>None\<close> is that nothing is raised, \<open>Some p\<close>
  that the program dies of panic \<open>p\<close>. The first outcome is that of a
  finalizer that never ran; the others are those of the registered finalizers
  when run.
\<close>

fun finalizers :: "Effect list \<Rightarrow> Sql list" where
  "finalizers [] = []"
| "finalizers (SetFinalizer sql # effs) = sql # finalizers effs"
| "finalizers (e # effs) = finalizers effs"

definition abandoned :: "Effect list \<Rightarrow> pgTupleIterator \<Rightarrow> panic option list" where
  "abandoned effs iter = None # map (\<lambda>sql. finalizer sql iter) (finalizers effs)"

section \<open>Callers\<close>

text \<open>
  A chain of refinement calls on a specification stops at the first panic.
\<close>

datatype refinement =
    CallWithObjectID string
  | CallWithRelation string
  | CallWithUserset "ObjectAndRelation option"

fun refine :: "pgTupleQuery \<Rightarrow> refinement \<Rightarrow> panic + pgTupleQuery" where
  "refine ptq (CallWithObjectID objectID) = Inr (WithObjectID ptq objectID)"
| "refine ptq (CallWithRelation rel) = Inr (WithRelation ptq rel)"
| "refine ptq (CallWithUserset userset) = WithUserset ptq userset"

fun refine_all :: "pgTupleQuery \<Rightarrow> refinement list \<Rightarrow> panic + pgTupleQuery" where
  "refine_all ptq [] = Inr ptq"
| "refine_all ptq (c # cs) =
     (case refine ptq c of Inl p \<Rightarrow> Inl p | Inr ptq' \<Rightarrow> refine_all ptq' cs)"

text \<open>
  A caller keeps specifications in variables. The methods have value receivers:
  \<open>dst := src.call(...)\<close> hands the method a copy of what \<open>src\<close> holds, the
  method changes and returns that copy, and only \<open>dst\<close> is written. A method
  called through a variable that holds nothing is a nil dereference.
\<close>

type_synonym var = string

datatype stmt = Assign var var refinement






text \<open>
  A consumer of an iterator calls \<open>Next\<close>, \<open>Err\<close> and \<open>Close\<close> in some order; a
  panic ends the run.
\<close>

datatype call = CallNext | CallErr | CallClose

fun step :: "pgTupleIterator \<Rightarrow> call \<Rightarrow> panic + pgTupleIterator" where
  "step pti CallNext = Inr (snd (Next pti))"
| "step pti CallErr = Inr pti"
| "step pti CallClose = Close pti"

fun run :: "pgTupleIterator \<Rightarrow> call list \<Rightarrow> panic + pgTupleIterator" where
  "run pti [] = Inr pti"
| "run pti (c # cs) =
     (case step pti c of Inl p \<Rightarrow> Inl p | Inr pti' \<Rightarrow> run pti' cs)"

text \<open>\<open>n\<close> calls of \<open>Next\<close> in a row: what each returned, and the iterator after.\<close>

fun nexts :: "nat \<Rightarrow> pgTupleIterator \<Rightarrow> RelationTuple option list \<times> pgTupleIterator" where
  "nexts 0 pti = ([], pti)"
| "nexts (Suc n) pti =
     (case Next pti of
        (r, pti') \<Rightarrow> (case nexts n pti' of (rs, pti'') \<Rightarrow> (r # rs, pti'')))"

section \<open>What the specification says of refinements and of misuse\<close>

text \<open>
  Following the specification (4.2), not the code: what each refinement call asks
  of a stored row. It is compared below with the predicate the code adds.
\<close>

fun spec_narrows :: "refinement \<Rightarrow> StoredRow \<Rightarrow> bool" where
  "spec_narrows (CallWithObjectID objectID) row = (row_object_id row = objectID)"
| "spec_narrows (CallWithRelation rel) row = (row_relation row = rel)"
| "spec_narrows (CallWithUserset (Some u)) row =
     (row_userset_namespace row = Namespace u
      \<and> row_userset_object_id row = ObjectId u
      \<and> row_userset_relation row = Relation u)"
| "spec_narrows (CallWithUserset None) row = False"

text \<open>
  Use after close in a sequence of calls: some \<open>Next\<close> comes after a \<open>Close\<close>.
\<close>

fun next_after_close :: "call list \<Rightarrow> bool" where
  "next_after_close [] = False"
| "next_after_close (CallClose # cs) = (CallNext \<in> set cs)"
| "next_after_close (CallNext # cs) = next_after_close cs"
| "next_after_close (CallErr # cs) = next_after_close cs"

section \<open>Example data\<close>

text \<open>
  The scenario of the specification: the tuple \<open>(doc, 42, viewer, user, alice, "")\<close>,
  a second one behind it, and an engine that answers every request with both.
  The other engines fail at one stage each.
\<close>

definition alice_row :: scanned where
  "alice_row = (''doc'', ''42'', ''viewer'', ''user'', ''alice'', [])"

definition bob_row :: scanned where
  "bob_row = (''doc'', ''42'', ''viewer'', ''user'', ''bob'', [])"

definition example_rows :: Rows where
  "example_rows = \<lparr>scans = [Inr alice_row, Inr bob_row], rows_Err = None\<rparr>"

definition example_db :: DB where
  "example_db = \<lparr>Beginx = Inr 1, Queryx = (\<lambda>sql. Inr example_rows)\<rparr>"

definition example_query :: pgTupleQuery where
  "example_query = QueryTuples (- 1) \<lparr>pgDatastore.db = example_db\<rparr> ''doc'' 5"

definition example_sql :: Sql where
  "example_sql =
     SELECT [colNamespace, colObjectID, colRelation,
             colUsersetNamespace, colUsersetObjectID, colUsersetRelation]
       (Some tableTuple)
       [Eq [(colNamespace, String ''doc'')],
        LtOrEq [(colCreatedTxn, Uint64 5)],
        Or [Eq [(colDeletedTxn, Uint64 (- 1))], Gt [(colDeletedTxn, Uint64 5)]]]"

definition alice_tuple :: RelationTuple where
  "alice_tuple =
     \<lparr>ObjectAndRelation = \<lparr>Namespace = ''doc'', ObjectId = ''42'', Relation = ''viewer''\<rparr>,
      User = User_Userset \<lparr>Namespace = ''user'', ObjectId = ''alice'', Relation = []\<rparr>\<rparr>"

definition bob_tuple :: RelationTuple where
  "bob_tuple =
     \<lparr>ObjectAndRelation = \<lparr>Namespace = ''doc'', ObjectId = ''42'', Relation = ''viewer''\<rparr>,
      User = User_Userset \<lparr>Namespace = ''user'', ObjectId = ''bob'', Relation = []\<rparr>\<rparr>"

definition example_iterator :: pgTupleIterator where
  "example_iterator = \<lparr>tuples = [alice_tuple, bob_tuple], closed = False, err = None\<rparr>"


definition example_program :: "stmt list" where
  "example_program =
     [Assign ''a'' ''s'' (CallWithRelation ''viewer''),
      Assign ''b'' ''s'' (CallWithRelation ''editor''),
      Assign ''a'' ''a'' (CallWithObjectID ''42''),
      Assign ''b'' ''b'' (CallWithObjectID ''7'')]"

definition alice_stored :: StoredRow where
  "alice_stored =
     \<lparr>row_namespace = ''doc'', row_object_id = ''42'', row_relation = ''viewer'',
      row_userset_namespace = ''user'', row_userset_object_id = ''alice'',
      row_userset_relation = [],
      row_created_transaction = 5, row_deleted_transaction = - 1\<rparr>"

definition no_begin_query :: pgTupleQuery where
  "no_begin_query =
     example_query\<lparr>db := example_db\<lparr>Beginx := Inl (New ''connection refused'')\<rparr>\<rparr>"

definition no_columns_query :: pgTupleQuery where
  "no_columns_query = example_query\<lparr>query := Select []\<rparr>"

definition no_answer_query :: pgTupleQuery where
  "no_answer_query =
     example_query\<lparr>db := example_db\<lparr>Queryx := (\<lambda>sql. Inl (New ''relation does not exist''))\<rparr>\<rparr>"

definition bad_row_rows :: Rows where
  "bad_row_rows =
     \<lparr>scans = [Inr alice_row, Inl (New ''converting NULL to string is unsupported''), Inr bob_row],
      rows_Err = None\<rparr>"

definition bad_row_query :: pgTupleQuery where
  "bad_row_query = example_query\<lparr>db := example_db\<lparr>Queryx := (\<lambda>sql. Inr bad_row_rows)\<rparr>\<rparr>"

definition cut_rows :: Rows where
  "cut_rows = \<lparr>scans = [Inr alice_row], rows_Err = Some (New ''unexpected EOF'')\<rparr>"

definition cut_query :: pgTupleQuery where
  "cut_query = example_query\<lparr>db := example_db\<lparr>Queryx := (\<lambda>sql. Inr cut_rows)\<rparr>\<rparr>"

section \<open>Facts about the builder\<close>

lemma Where_simps:
  "Columns (Where b p) = Columns b"
  "From (Where b p) = From b"
  "WhereParts (Where b p) = WhereParts b @ [p]"
  by (simp_all add: Where_def)

lemma QueryTuples_query:
  "Columns (query (QueryTuples live pgd ns R)) =
     [colNamespace, colObjectID, colRelation,
      colUsersetNamespace, colUsersetObjectID, colUsersetRelation]"
  "From (query (QueryTuples live pgd ns R)) = Some tableTuple"
  "WhereParts (query (QueryTuples live pgd ns R)) =
     [Eq [(colNamespace, String ns)], LtOrEq [(colCreatedTxn, Uint64 R)],
      Or [Eq [(colDeletedTxn, Uint64 live)], Gt [(colDeletedTxn, Uint64 R)]]]"
  by (simp_all add: QueryTuples_def queryTuples_def Where_def From_table_def Select_def)

text \<open>
  A refinement call that returns has added one where-part, and that part holds of
  a row exactly when the specification's constraint does.
\<close>

lemma refine_adds_one:
  assumes "refine ptq c = Inr ptq'"
  shows "Columns (query ptq') = Columns (query ptq) \<and> From (query ptq') = From (query ptq)
       \<and> (\<exists>p. WhereParts (query ptq') = WhereParts (query ptq) @ [p]
              \<and> (\<forall>row. holds p row = spec_narrows c row))"
  using assms
  by (cases c)
     (auto simp: WithObjectID_def WithRelation_def WithUserset_def Where_def split: option.splits)

lemma refine_all_adds:
  assumes "refine_all ptq cs = Inr ptq'"
  shows "Columns (query ptq') = Columns (query ptq) \<and> From (query ptq') = From (query ptq)
       \<and> (\<exists>ps. length ps = length cs
              \<and> WhereParts (query ptq') = WhereParts (query ptq) @ ps
              \<and> (\<forall>row. list_all (\<lambda>p. holds p row) ps = list_all (\<lambda>c. spec_narrows c row) cs))"
  using assms
proof (induction cs arbitrary: ptq)
  case Nil
  then show ?case by simp
next
  case (Cons c cs)
  from Cons.prems obtain mid
    where m: "refine ptq c = Inr mid" and r: "refine_all mid cs = Inr ptq'"
    by (auto split: sum.splits)
  from refine_adds_one[OF m] obtain p where
    p: "Columns (query mid) = Columns (query ptq)" "From (query mid) = From (query ptq)"
       "WhereParts (query mid) = WhereParts (query ptq) @ [p]"
       "\<forall>row. holds p row = spec_narrows c row"
    by blast
  from Cons.IH[OF r] obtain ps where
    ps: "Columns (query ptq') = Columns (query mid)" "From (query ptq') = From (query mid)"
        "length ps = length cs" "WhereParts (query ptq') = WhereParts (query mid) @ ps"
        "\<forall>row. list_all (\<lambda>p. holds p row) ps = list_all (\<lambda>c. spec_narrows c row) cs"
    by blast
  have "\<exists>qs. length qs = length (c # cs)
          \<and> WhereParts (query ptq') = WhereParts (query ptq) @ qs
          \<and> (\<forall>row. list_all (\<lambda>p. holds p row) qs
                    = list_all (\<lambda>c. spec_narrows c row) (c # cs))"
    by (rule exI[of _ "p # ps"]) (simp add: p ps)
  then show ?case using p ps by simp
qed

lemma refine_frame:
  assumes "refine ptq c = Inr ptq'"
  shows "pgTupleQuery.db ptq' = pgTupleQuery.db ptq \<and> namespace ptq' = namespace ptq"
  using assms
  by (cases c)
     (auto simp: WithObjectID_def WithRelation_def WithUserset_def split: option.splits)

lemma refine_all_frame:
  assumes "refine_all ptq cs = Inr ptq'"
  shows "pgTupleQuery.db ptq' = pgTupleQuery.db ptq \<and> namespace ptq' = namespace ptq"
  using assms
proof (induction cs arbitrary: ptq)
  case Nil
  then show ?case by simp
next
  case (Cons c cs)
  from Cons.prems obtain mid
    where m: "refine ptq c = Inr mid" and r: "refine_all mid cs = Inr ptq'"
    by (auto split: sum.splits)
  from Cons.IH[OF r] refine_frame[OF m] show ?case by simp
qed

text \<open>The only builder call that does not return is \<open>WithUserset\<close> on nil.\<close>

lemma refine_all_returns:
  assumes "CallWithUserset None \<notin> set cs"
  shows "\<exists>ptq'. refine_all ptq cs = Inr ptq'"
  using assms
proof (induction cs arbitrary: ptq)
  case Nil
  then show ?case by simp
next
  case (Cons c cs)
  from Cons.prems have "c \<noteq> CallWithUserset None" by auto
  then obtain mid where m: "refine ptq c = Inr mid"
    by (cases c) (auto simp: WithUserset_def split: option.splits)
  from Cons.prems have "CallWithUserset None \<notin> set cs" by simp
  from Cons.IH[OF this, of mid] m show ?case by simp
qed



section \<open>Facts about Execute\<close>

lemma scanRows_append:
  "scanRows (map Inr scs) ts = Inr (ts @ map nextTuple scs)"
  by (induction scs arbitrary: ts) simp_all

lemma scanRows_fails:
  "scanRows (map Inr good @ Inl e # rest) ts = Inl (Errorf errUnableToQueryTuples e)"
  by (induction good arbitrary: ts) simp_all

lemma scanRows_Inr:
  "scanRows rs ts = Inr ts' \<Longrightarrow> \<exists>scs. rs = map Inr scs \<and> ts' = ts @ map nextTuple scs"
proof (induction rs ts rule: scanRows.induct)
  case (1 ts)
  then show ?case by simp
next
  case (2 e rest ts)
  then show ?case by simp
next
  case (3 row rest ts)
  then obtain scs
    where "rest = map Inr scs" "ts' = (ts @ [nextTuple row]) @ map nextTuple scs"
    by auto
  then show ?case by (intro exI[of _ "row # scs"]) simp
qed

lemma scanRows_Inl:
  "scanRows rs ts = Inl x \<Longrightarrow>
     \<exists>good e rest. rs = map Inr good @ Inl e # rest \<and> x = Errorf errUnableToQueryTuples e"
proof (induction rs ts rule: scanRows.induct)
  case (1 ts)
  then show ?case by simp
next
  case (2 e rest ts)
  then show ?case by (intro exI[of _ "[]"]) simp
next
  case (3 row rest ts)
  then obtain good e rest'
    where "rest = map Inr good @ Inl e # rest'" "x = Errorf errUnableToQueryTuples e"
    by auto
  then show ?case by (intro exI[of _ "row # good"]) simp
qed

text \<open>What is known when \<open>Execute\<close> hands out an iterator.\<close>

lemma Execute_Some:
  assumes "Execute ptq = ((Some iter, e), effs)"
  shows "\<exists>tx sql rows scs.
           Beginx (pgTupleQuery.db ptq) = Inr tx
         \<and> ToSql (query ptq) = Inr sql
         \<and> Queryx (pgTupleQuery.db ptq) sql = Inr rows
         \<and> scans rows = map Inr scs \<and> rows_Err rows = None
         \<and> iter = \<lparr>tuples = map nextTuple scs, closed = False, err = None\<rparr>
         \<and> e = None
         \<and> effs = [DB_Beginx, DB_Queryx sql, SetFinalizer sql, Tx_Rollback tx]"
  using assms
  by (auto simp: Execute_def Execute_deferred_def split: sum.splits option.splits
           dest!: scanRows_Inr)

lemma Execute_queries:
  assumes "DB_Queryx sql \<in> set (snd (Execute ptq))"
  shows "ToSql (query ptq) = Inr sql"
  using assms
  by (auto simp: Execute_def Execute_deferred_def split: sum.splits option.splits)

text \<open>
  Once a transaction is open, the last call \<open>Execute\<close> makes is its rollback,
  whatever happened in between; and no request is ever sent on a transaction.
\<close>

lemma Execute_rolls_back:
  "Beginx (pgTupleQuery.db ptq) = Inr tx \<Longrightarrow> last (snd (Execute ptq)) = Tx_Rollback tx"
  by (simp add: Execute_def split: prod.splits)

lemma Execute_never_queries_in_transaction:
  "Tx_Queryx tx sql \<notin> set (snd (Execute ptq))"
  by (auto simp: Execute_def Execute_deferred_def split: sum.splits option.splits)

lemma example_ToSql: "ToSql (query example_query) = Inr example_sql"
  by (simp add: example_query_def example_sql_def QueryTuples_query ToSql_def)

text \<open>And the converse: when every stage succeeds, this is what \<open>Execute\<close> does.\<close>

lemma Execute_success:
  assumes "Beginx (pgTupleQuery.db ptq) = Inr tx"
      and "ToSql (query ptq) = Inr sql"
      and "Queryx (pgTupleQuery.db ptq) sql = Inr rows"
      and "scans rows = map Inr scs" and "rows_Err rows = None"
  shows "Execute ptq =
           ((Some \<lparr>tuples = map nextTuple scs, closed = False, err = None\<rparr>, None),
            [DB_Beginx, DB_Queryx sql, SetFinalizer sql, Tx_Rollback tx])"
  by (simp add: Execute_def Execute_deferred_def assms scanRows_append)

lemma example_db_simps:
  "pgTupleQuery.db example_query = example_db"
  "Beginx example_db = Inr 1"
  "Queryx example_db sql = Inr example_rows"
  by (simp_all add: example_query_def QueryTuples_def example_db_def)

lemma example_Execute:
  "Execute example_query =
     ((Some example_iterator, None),
      [DB_Beginx, DB_Queryx example_sql, SetFinalizer example_sql, Tx_Rollback 1])"
  using Execute_success[of example_query 1 example_sql example_rows "[alice_row, bob_row]"]
  by (simp add: example_db_simps example_ToSql example_rows_def example_iterator_def
      alice_tuple_def bob_tuple_def alice_row_def bob_row_def)

section \<open>Facts about the iterator\<close>

lemma nexts_open:
  "\<not> closed pti \<Longrightarrow>
     nexts (length (tuples pti)) pti = (map Some (tuples pti), pti\<lparr>tuples := []\<rparr>)"
proof (induction "tuples pti" arbitrary: pti)
  case Nil
  then show ?case by simp
next
  case (Cons t ts)
  from Cons.hyps(2) have t: "tuples pti = t # ts" by simp
  have n: "Next pti = (Some t, pti\<lparr>tuples := ts\<rparr>)"
    using Cons.prems t by (simp add: Next_def)
  have "nexts (length (tuples (pti\<lparr>tuples := ts\<rparr>))) (pti\<lparr>tuples := ts\<rparr>)
          = (map Some (tuples (pti\<lparr>tuples := ts\<rparr>)), pti\<lparr>tuples := ts\<rparr>\<lparr>tuples := []\<rparr>)"
    by (rule Cons.hyps(1)) (use Cons.prems in simp_all)
  then show ?case using t n by simp
qed

lemma nexts_exhausted:
  "\<not> closed pti \<Longrightarrow> tuples pti = [] \<Longrightarrow> nexts k pti = (replicate k None, pti)"
  by (induction k) (simp_all add: Next_def)

lemma nexts_closed:
  "closed pti \<Longrightarrow>
     nexts (Suc k) pti = (replicate (Suc k) None, pti\<lparr>err := Some errClosedIterator\<rparr>)"
proof (induction k arbitrary: pti)
  case 0
  then show ?case by (simp add: Next_def)
next
  case (Suc k)
  have n: "Next pti = (None, pti\<lparr>err := Some errClosedIterator\<rparr>)"
    using Suc.prems by (simp add: Next_def)
  have "nexts (Suc k) (pti\<lparr>err := Some errClosedIterator\<rparr>)
          = (replicate (Suc k) None,
             pti\<lparr>err := Some errClosedIterator\<rparr>\<lparr>err := Some errClosedIterator\<rparr>)"
    by (rule Suc.IH) (use Suc.prems in simp)
  then show ?case using n by simp
qed

lemma step_closed:
  "step pti c = Inr pti' \<Longrightarrow> closed pti' = (closed pti \<or> c = CallClose)"
  by (cases c) (auto simp: Next_def Close_def split: if_splits list.splits)

lemma step_err:
  "step pti c = Inr pti' \<Longrightarrow>
     err pti' = (if c = CallNext \<and> closed pti then Some errClosedIterator else err pti)"
  by (cases c) (auto simp: Next_def Close_def split: if_splits list.splits)

lemma run_Cons:
  "run pti (c # cs) = Inr pti' \<Longrightarrow> \<exists>mid. step pti c = Inr mid \<and> run mid cs = Inr pti'"
  by (auto split: sum.splits)

lemma run_closed:
  "run pti cs = Inr pti' \<Longrightarrow> closed pti' = (closed pti \<or> CallClose \<in> set cs)"
proof (induction cs arbitrary: pti)
  case Nil
  then show ?case by simp
next
  case (Cons c cs)
  from run_Cons[OF Cons.prems] obtain mid
    where m: "step pti c = Inr mid" and r: "run mid cs = Inr pti'" by blast
  from Cons.IH[OF r] step_closed[OF m] show ?case by auto
qed

lemma run_err_closed:
  "run pti cs = Inr pti' \<Longrightarrow> closed pti \<Longrightarrow>
     err pti' = (if CallNext \<in> set cs then Some errClosedIterator else err pti)"
proof (induction cs arbitrary: pti)
  case Nil
  then show ?case by simp
next
  case (Cons c cs)
  from run_Cons[OF Cons.prems(1)] obtain mid
    where m: "step pti c = Inr mid" and r: "run mid cs = Inr pti'" by blast
  from step_closed[OF m] Cons.prems have cm: "closed mid" by simp
  from Cons.IH[OF r cm] step_err[OF m] Cons.prems(2) show ?case by auto
qed

lemma run_err_open:
  "run pti cs = Inr pti' \<Longrightarrow> \<not> closed pti \<Longrightarrow>
     err pti' = (if next_after_close cs then Some errClosedIterator else err pti)"
proof (induction cs arbitrary: pti rule: next_after_close.induct)
  case 1
  then show ?case by simp
next
  case (2 cs)
  from run_Cons[OF "2.prems"(1)] obtain mid
    where m: "step pti CallClose = Inr mid" and r: "run mid cs = Inr pti'" by blast
  from step_closed[OF m] have cm: "closed mid" by simp
  from run_err_closed[OF r cm] step_err[OF m] show ?case by simp
next
  case (3 cs)
  from run_Cons[OF "3.prems"(1)] obtain mid
    where m: "step pti CallNext = Inr mid" and r: "run mid cs = Inr pti'" by blast
  from step_closed[OF m] "3.prems" have cm: "\<not> closed mid" by simp
  from "3.IH"[OF r cm] step_err[OF m] "3.prems" show ?case by simp
next
  case (4 cs)
  from run_Cons[OF "4.prems"(1)] obtain mid
    where m: "step pti CallErr = Inr mid" and r: "run mid cs = Inr pti'" by blast
  from step_closed[OF m] "4.prems" have cm: "\<not> closed mid" by simp
  from "4.IH"[OF r cm] step_err[OF m] "4.prems" show ?case by simp
qed

lemma run_err_persists:
  "run pti cs = Inr pti' \<Longrightarrow> err pti = Some errClosedIterator
     \<Longrightarrow> err pti' = Some errClosedIterator"
proof (induction cs arbitrary: pti)
  case Nil
  then show ?case by simp
next
  case (Cons c cs)
  from run_Cons[OF Cons.prems(1)] obtain mid
    where m: "step pti c = Inr mid" and r: "run mid cs = Inr pti'" by blast
  from step_err[OF m] Cons.prems(2) have "err mid = Some errClosedIterator" by simp
  from Cons.IH[OF r this] show ?case .
qed

section \<open>The visibility predicate\<close>

text \<open>
  C1: take the specification \<open>QueryTuples\<close> builds for a namespace and a
  revision \<open>R\<close>, refined by any chain of calls that returns. The statement it
  compiles to, which is the only one \<open>Execute\<close> sends to the engine, starts its
  where-clause with the namespace test and the two visibility tests, and it
  accepts a stored row only if the row was created at or before \<open>R\<close> and is
  either live or deleted after \<open>R\<close>.
\<close>

theorem C1_visibility_always_conjoined:
  assumes "refine_all (QueryTuples live pgd ns R) cs = Inr ptq"
      and "ToSql (query ptq) = Inr sql \<or> DB_Queryx sql \<in> set (snd (Execute ptq))"
  shows "(\<exists>rest. sql =
            SELECT [colNamespace, colObjectID, colRelation,
                    colUsersetNamespace, colUsersetObjectID, colUsersetRelation]
              (Some tableTuple)
              ([Eq [(colNamespace, String ns)],
                LtOrEq [(colCreatedTxn, Uint64 R)],
                Or [Eq [(colDeletedTxn, Uint64 live)], Gt [(colDeletedTxn, Uint64 R)]]]
               @ rest))
       \<and> (accepts sql row \<longrightarrow>
            row_created_transaction row \<le> R
            \<and> (row_deleted_transaction row = live \<or> R < row_deleted_transaction row))"
proof -
  from refine_all_adds[OF assms(1)] obtain ps where
    ps: "Columns (query ptq) = Columns (query (QueryTuples live pgd ns R))"
        "From (query ptq) = From (query (QueryTuples live pgd ns R))"
        "WhereParts (query ptq) = WhereParts (query (QueryTuples live pgd ns R)) @ ps"
    by blast
  from assms(2) have "ToSql (query ptq) = Inr sql"
    using Execute_queries by blast
  then have sql: "sql =
            SELECT [colNamespace, colObjectID, colRelation,
                    colUsersetNamespace, colUsersetObjectID, colUsersetRelation]
              (Some tableTuple)
              ([Eq [(colNamespace, String ns)],
                LtOrEq [(colCreatedTxn, Uint64 R)],
                Or [Eq [(colDeletedTxn, Uint64 live)], Gt [(colDeletedTxn, Uint64 R)]]]
               @ ps)"
    by (simp add: ToSql_def ps QueryTuples_query)
  have "accepts sql row \<longrightarrow>
            row_created_transaction row \<le> R
            \<and> (row_deleted_transaction row = live \<or> R < row_deleted_transaction row)"
    unfolding sql by auto
  with sql show ?thesis by blast
qed

theorem C1_visibility_always_conjoined_witness:
  "refine_all (QueryTuples (- 1) \<lparr>pgDatastore.db = example_db\<rparr> ''doc'' 5)
     [CallWithObjectID ''42'', CallWithRelation ''viewer'']
     = Inr (WithRelation (WithObjectID example_query ''42'') ''viewer'')
   \<and> DB_Queryx
        (SELECT [colNamespace, colObjectID, colRelation,
                 colUsersetNamespace, colUsersetObjectID, colUsersetRelation]
           (Some tableTuple)
           [Eq [(colNamespace, String ''doc'')],
            LtOrEq [(colCreatedTxn, Uint64 5)],
            Or [Eq [(colDeletedTxn, Uint64 (- 1))], Gt [(colDeletedTxn, Uint64 5)]],
            Eq [(colObjectID, String ''42'')],
            Eq [(colRelation, String ''viewer'')]])
        \<in> set (snd (Execute (WithRelation (WithObjectID example_query ''42'') ''viewer'')))
   \<and> accepts
        (SELECT [colNamespace, colObjectID, colRelation,
                 colUsersetNamespace, colUsersetObjectID, colUsersetRelation]
           (Some tableTuple)
           [Eq [(colNamespace, String ''doc'')],
            LtOrEq [(colCreatedTxn, Uint64 5)],
            Or [Eq [(colDeletedTxn, Uint64 (- 1))], Gt [(colDeletedTxn, Uint64 5)]],
            Eq [(colObjectID, String ''42'')],
            Eq [(colRelation, String ''viewer'')]])
        alice_stored
   \<and> row_created_transaction alice_stored \<le> 5
   \<and> (row_deleted_transaction alice_stored = - 1 \<or> 5 < row_deleted_transaction alice_stored)"
proof -
  let ?q = "WithRelation (WithObjectID example_query ''42'') ''viewer''"
  let ?sql = "SELECT [colNamespace, colObjectID, colRelation,
                 colUsersetNamespace, colUsersetObjectID, colUsersetRelation]
           (Some tableTuple)
           [Eq [(colNamespace, String ''doc'')],
            LtOrEq [(colCreatedTxn, Uint64 5)],
            Or [Eq [(colDeletedTxn, Uint64 (- 1))], Gt [(colDeletedTxn, Uint64 5)]],
            Eq [(colObjectID, String ''42'')],
            Eq [(colRelation, String ''viewer'')]]"
  have r: "refine_all (QueryTuples (- 1) \<lparr>pgDatastore.db = example_db\<rparr> ''doc'' 5)
     [CallWithObjectID ''42'', CallWithRelation ''viewer''] = Inr ?q"
    by (simp add: example_query_def)
  have t: "ToSql (query ?q) = Inr ?sql"
    by (simp add: WithRelation_def WithObjectID_def Where_def example_query_def
        QueryTuples_query ToSql_def)
  have d: "pgTupleQuery.db ?q = example_db"
    by (simp add: WithRelation_def WithObjectID_def example_query_def QueryTuples_def)
  have e: "DB_Queryx ?sql \<in> set (snd (Execute ?q))"
    using Execute_success[of ?q 1 ?sql example_rows "[alice_row, bob_row]"] t
    by (simp add: d example_db_simps example_rows_def)
  have a: "accepts ?sql alice_stored"
    by (simp add: alice_stored_def)
  from C1_visibility_always_conjoined[OF r disjI2[OF e], of alice_stored] r e a
  show ?thesis by blast
qed

section \<open>The transaction around the read\<close>

text \<open>
  C2: \<open>Execute\<close> should run the compiled request inside the transaction it
  opens. It does not. On the example specification the calls made are: begin a
  transaction, send the request on the database handle, register the finalizer,
  roll the transaction back. The request goes out with \<open>DB_Queryx\<close>, the
  handle's own method (line 86 calls \<open>ptq.db.Queryx\<close>), and nothing is sent
  on transaction 1, which is opened and rolled back unused.
\<close>

theorem C2_request_sent_outside_transaction:
  "snd (Execute example_query) =
     [DB_Beginx,
      DB_Queryx
        (SELECT [colNamespace, colObjectID, colRelation,
                 colUsersetNamespace, colUsersetObjectID, colUsersetRelation]
           (Some tableTuple)
           [Eq [(colNamespace, String ''doc'')],
            LtOrEq [(colCreatedTxn, Uint64 5)],
            Or [Eq [(colDeletedTxn, Uint64 (- 1))], Gt [(colDeletedTxn, Uint64 5)]]]),
      SetFinalizer
        (SELECT [colNamespace, colObjectID, colRelation,
                 colUsersetNamespace, colUsersetObjectID, colUsersetRelation]
           (Some tableTuple)
           [Eq [(colNamespace, String ''doc'')],
            LtOrEq [(colCreatedTxn, Uint64 5)],
            Or [Eq [(colDeletedTxn, Uint64 (- 1))], Gt [(colDeletedTxn, Uint64 5)]]]),
      Tx_Rollback 1]"
  by (simp add: example_Execute example_sql_def)

section \<open>Failures of Execute\<close>

text \<open>
  C3: whichever stage fails (opening the transaction, compiling the request,
  running it, scanning a row after any number of good rows, or the cursor
  stopping with an error), \<open>Execute\<close> returns no iterator and the error
  \<open>fmt.Errorf(errUnableToQueryTuples, cause)\<close> around the cause of that stage;
  and every error \<open>Execute\<close> returns comes with no iterator and has that form.
\<close>

theorem C3_failures_wrapped_no_partial_result:
  "(Beginx (pgTupleQuery.db ptq) = Inl e \<longrightarrow>
      fst (Execute ptq) = (None, Some (Errorf errUnableToQueryTuples e)))
 \<and> (Beginx (pgTupleQuery.db ptq) = Inr tx \<longrightarrow> ToSql (query ptq) = Inl e \<longrightarrow>
      fst (Execute ptq) = (None, Some (Errorf errUnableToQueryTuples e)))
 \<and> (Beginx (pgTupleQuery.db ptq) = Inr tx \<longrightarrow> ToSql (query ptq) = Inr sql \<longrightarrow>
    Queryx (pgTupleQuery.db ptq) sql = Inl e \<longrightarrow>
      fst (Execute ptq) = (None, Some (Errorf errUnableToQueryTuples e)))
 \<and> (Beginx (pgTupleQuery.db ptq) = Inr tx \<longrightarrow> ToSql (query ptq) = Inr sql \<longrightarrow>
    Queryx (pgTupleQuery.db ptq) sql = Inr rows \<longrightarrow>
    scans rows = map Inr good @ Inl e # rest \<longrightarrow>
      fst (Execute ptq) = (None, Some (Errorf errUnableToQueryTuples e)))
 \<and> (Beginx (pgTupleQuery.db ptq) = Inr tx \<longrightarrow> ToSql (query ptq) = Inr sql \<longrightarrow>
    Queryx (pgTupleQuery.db ptq) sql = Inr rows \<longrightarrow>
    scans rows = map Inr good \<longrightarrow> rows_Err rows = Some e \<longrightarrow>
      fst (Execute ptq) = (None, Some (Errorf errUnableToQueryTuples e)))
 \<and> (snd (fst (Execute ptq)) = Some x \<longrightarrow>
      fst (fst (Execute ptq)) = None \<and> (\<exists>cause. x = Errorf errUnableToQueryTuples cause))"
proof (intro conjI impI)
  assume "snd (fst (Execute ptq)) = Some x"
  then show "fst (fst (Execute ptq)) = None"
    and "\<exists>cause. x = Errorf errUnableToQueryTuples cause"
    by (auto simp: Execute_def Execute_deferred_def split: sum.splits option.splits
             dest: scanRows_Inl)
qed (simp_all add: Execute_def Execute_deferred_def scanRows_fails scanRows_append)

theorem C3_failures_wrapped_no_partial_result_witness:
  "Beginx (pgTupleQuery.db no_begin_query) = Inl (New ''connection refused'')
   \<and> fst (Execute no_begin_query)
       = (None, Some (Errorf errUnableToQueryTuples (New ''connection refused'')))
   \<and> Beginx (pgTupleQuery.db no_columns_query) = Inr 1
   \<and> ToSql (query no_columns_query)
       = Inl (New ''select statements must have at least one result column'')
   \<and> fst (Execute no_columns_query)
       = (None, Some (Errorf errUnableToQueryTuples
            (New ''select statements must have at least one result column'')))
   \<and> Beginx (pgTupleQuery.db no_answer_query) = Inr 1
   \<and> ToSql (query no_answer_query) = Inr example_sql
   \<and> Queryx (pgTupleQuery.db no_answer_query) example_sql
       = Inl (New ''relation does not exist'')
   \<and> fst (Execute no_answer_query)
       = (None, Some (Errorf errUnableToQueryTuples (New ''relation does not exist'')))
   \<and> Beginx (pgTupleQuery.db bad_row_query) = Inr 1
   \<and> ToSql (query bad_row_query) = Inr example_sql
   \<and> Queryx (pgTupleQuery.db bad_row_query) example_sql = Inr bad_row_rows
   \<and> scans bad_row_rows
       = map Inr [alice_row] @ Inl (New ''converting NULL to string is unsupported'')
           # [Inr bob_row]
   \<and> fst (Execute bad_row_query)
       = (None, Some (Errorf errUnableToQueryTuples
            (New ''converting NULL to string is unsupported'')))
   \<and> Beginx (pgTupleQuery.db cut_query) = Inr 1
   \<and> ToSql (query cut_query) = Inr example_sql
   \<and> Queryx (pgTupleQuery.db cut_query) example_sql = Inr cut_rows
   \<and> scans cut_rows = map Inr [alice_row]
   \<and> rows_Err cut_rows = Some (New ''unexpected EOF'')
   \<and> fst (Execute cut_query)
       = (None, Some (Errorf errUnableToQueryTuples (New ''unexpected EOF'')))
   \<and> snd (fst (Execute cut_query))
       = Some (Errorf errUnableToQueryTuples (New ''unexpected EOF''))
   \<and> fst (fst (Execute cut_query)) = None"
proof -
  have b1: "Beginx (pgTupleQuery.db no_begin_query) = Inl (New ''connection refused'')"
    by (simp add: no_begin_query_def)
  have b2: "Beginx (pgTupleQuery.db no_columns_query) = Inr 1"
    by (simp add: no_columns_query_def example_query_def QueryTuples_def example_db_def)
  have t2: "ToSql (query no_columns_query)
       = Inl (New ''select statements must have at least one result column'')"
    by (simp add: no_columns_query_def ToSql_def Select_def)
  have b3: "Beginx (pgTupleQuery.db no_answer_query) = Inr 1"
    by (simp add: no_answer_query_def example_db_def)
  have t3: "ToSql (query no_answer_query) = Inr example_sql"
    using example_ToSql by (simp add: no_answer_query_def)
  have q3: "Queryx (pgTupleQuery.db no_answer_query) example_sql
       = Inl (New ''relation does not exist'')"
    by (simp add: no_answer_query_def)
  have b4: "Beginx (pgTupleQuery.db bad_row_query) = Inr 1"
    by (simp add: bad_row_query_def example_db_def)
  have t4: "ToSql (query bad_row_query) = Inr example_sql"
    using example_ToSql by (simp add: bad_row_query_def)
  have q4: "Queryx (pgTupleQuery.db bad_row_query) example_sql = Inr bad_row_rows"
    by (simp add: bad_row_query_def)
  have s4: "scans bad_row_rows
       = map Inr [alice_row] @ Inl (New ''converting NULL to string is unsupported'')
           # [Inr bob_row]"
    by (simp add: bad_row_rows_def)
  have b5: "Beginx (pgTupleQuery.db cut_query) = Inr 1"
    by (simp add: cut_query_def example_db_def)
  have t5: "ToSql (query cut_query) = Inr example_sql"
    using example_ToSql by (simp add: cut_query_def)
  have q5: "Queryx (pgTupleQuery.db cut_query) example_sql = Inr cut_rows"
    by (simp add: cut_query_def)
  have s5: "scans cut_rows = map Inr [alice_row]"
    by (simp add: cut_rows_def)
  have e5: "rows_Err cut_rows = Some (New ''unexpected EOF'')"
    by (simp add: cut_rows_def)
  note c1 = C3_failures_wrapped_no_partial_result
              [of no_begin_query "New ''connection refused''"]
  note c2 = C3_failures_wrapped_no_partial_result
              [of no_columns_query
                  "New ''select statements must have at least one result column''" 1]
  note c3 = C3_failures_wrapped_no_partial_result
              [of no_answer_query "New ''relation does not exist''" 1 example_sql]
  note c4 = C3_failures_wrapped_no_partial_result
              [of bad_row_query "New ''converting NULL to string is unsupported''" 1
                  example_sql bad_row_rows "[alice_row]" "[Inr bob_row]"]
  note c5 = C3_failures_wrapped_no_partial_result
              [of cut_query "New ''unexpected EOF''" 1 example_sql cut_rows "[alice_row]" _
                  "Errorf errUnableToQueryTuples (New ''unexpected EOF'')"]
  have r1: "fst (Execute no_begin_query)
       = (None, Some (Errorf errUnableToQueryTuples (New ''connection refused'')))"
    using c1 b1 by blast
  have r2: "fst (Execute no_columns_query)
       = (None, Some (Errorf errUnableToQueryTuples
            (New ''select statements must have at least one result column'')))"
    using c2 b2 t2 by blast
  have r3: "fst (Execute no_answer_query)
       = (None, Some (Errorf errUnableToQueryTuples (New ''relation does not exist'')))"
    using c3 b3 t3 q3 by blast
  have r4: "fst (Execute bad_row_query)
       = (None, Some (Errorf errUnableToQueryTuples
            (New ''converting NULL to string is unsupported'')))"
    using c4 b4 t4 q4 s4 by blast
  have r5: "fst (Execute cut_query)
       = (None, Some (Errorf errUnableToQueryTuples (New ''unexpected EOF'')))"
    using c5 b5 t5 q5 s5 e5 by blast
  have r6: "snd (fst (Execute cut_query))
       = Some (Errorf errUnableToQueryTuples (New ''unexpected EOF''))"
    using r5 by simp
  have r7: "fst (fst (Execute cut_query)) = None"
    using c5 r6 by blast
  show ?thesis
    using b1 r1 b2 t2 r2 b3 t3 q3 r3 b4 t4 q4 s4 r4 b5 t5 q5 s5 e5 r5 r6 r7
    by (intro conjI)
qed

section \<open>Refinements\<close>



text \<open>
  C8 does not hold for an absent subject: \<open>WithUserset\<close> reads the fields of its
  argument through the pointer, so on nil it panics instead of returning a
  specification.
\<close>

theorem C8_nil_subject_counterexample:
  "WithUserset example_query None = Inl NilPointerDereference"
  by (simp add: WithUserset_def)

text \<open>
  C8, amended: any chain of builder calls in which every subject passed to
  \<open>WithUserset\<close> is present returns a specification, with one where-part more
  per call, on the same database handle and namespace; none of the calls fails
  or panics.
\<close>

theorem C8_builders_total_on_present_subject:
  assumes "CallWithUserset None \<notin> set cs"
  shows "\<exists>ptq' ps. refine_all ptq cs = Inr ptq'
           \<and> WhereParts (query ptq') = WhereParts (query ptq) @ ps
           \<and> length ps = length cs
           \<and> pgTupleQuery.db ptq' = pgTupleQuery.db ptq
           \<and> namespace ptq' = namespace ptq"
proof -
  from refine_all_returns[OF assms] obtain ptq' where r: "refine_all ptq cs = Inr ptq'"
    by blast
  from refine_all_adds[OF r] refine_all_frame[OF r] r show ?thesis
    by blast
qed

theorem C8_builders_total_on_present_subject_witness:
  "CallWithUserset None \<notin> set [CallWithObjectID ''42'',
       CallWithUserset (Some \<lparr>Namespace = ''user'', ObjectId = ''alice'', Relation = []\<rparr>)]
   \<and> (\<exists>ptq'. refine_all example_query [CallWithObjectID ''42'',
          CallWithUserset (Some \<lparr>Namespace = ''user'', ObjectId = ''alice'', Relation = []\<rparr>)]
          = Inr ptq'
        \<and> length (WhereParts (query ptq')) = 3 + 2)"
proof -
  have h: "CallWithUserset None \<notin> set [CallWithObjectID ''42'',
       CallWithUserset (Some \<lparr>Namespace = ''user'', ObjectId = ''alice'', Relation = []\<rparr>)]"
    by simp
  have l: "length (WhereParts (query example_query)) = 3"
    by (simp add: example_query_def QueryTuples_query)
  from C8_builders_total_on_present_subject[OF h, of example_query] obtain ptq' ps where
    r: "refine_all example_query [CallWithObjectID ''42'',
          CallWithUserset (Some \<lparr>Namespace = ''user'', ObjectId = ''alice'', Relation = []\<rparr>)]
          = Inr ptq'"
       "WhereParts (query ptq') = WhereParts (query example_query) @ ps"
       "length ps = length [CallWithObjectID ''42'',
          CallWithUserset (Some \<lparr>Namespace = ''user'', ObjectId = ''alice'', Relation = []\<rparr>)]"
    by blast
  from r(2) r(3) l have "length (WhereParts (query ptq')) = 3 + 2" by simp
  with h r(1) show ?thesis by blast
qed

section \<open>The iterator\<close>

text \<open>
  C5: when \<open>Execute\<close> returns an iterator, the cursor yielded some rows
  \<open>scs\<close> in that order; the first \<open>length scs\<close> calls of \<open>Next\<close> return one
  tuple each and leave the iterator empty; and read field by field (resource
  namespace, object id and relation, then the userset's three), the tuples
  returned are the rows of the cursor, in the cursor's order.
\<close>

theorem C5_next_preserves_engine_order:
  assumes "Execute ptq = ((Some iter, e), effs)"
  shows "\<exists>sql rows scs ts.
           ToSql (query ptq) = Inr sql
         \<and> Queryx (pgTupleQuery.db ptq) sql = Inr rows
         \<and> scans rows = map Inr scs
         \<and> nexts (length scs) iter = (map Some ts, iter\<lparr>tuples := []\<rparr>)
         \<and> map (\<lambda>t. (Namespace (ObjectAndRelation t), ObjectId (ObjectAndRelation t),
                      Relation (ObjectAndRelation t), Namespace (Userset (User t)),
                      ObjectId (Userset (User t)), Relation (Userset (User t)))) ts
             = scs"
proof -
  from Execute_Some[OF assms] obtain sql rows scs where
    h: "ToSql (query ptq) = Inr sql" "Queryx (pgTupleQuery.db ptq) sql = Inr rows"
       "scans rows = map Inr scs"
       "iter = \<lparr>tuples = map nextTuple scs, closed = False, err = None\<rparr>"
    by blast
  have o: "\<not> closed iter" and t: "tuples iter = map nextTuple scs"
    using h(4) by simp_all
  with nexts_open[of iter]
  have n: "nexts (length scs) iter = (map Some (map nextTuple scs), iter\<lparr>tuples := []\<rparr>)"
    by simp
  have f: "map (\<lambda>t. (Namespace (ObjectAndRelation t), ObjectId (ObjectAndRelation t),
                      Relation (ObjectAndRelation t), Namespace (Userset (User t)),
                      ObjectId (Userset (User t)), Relation (Userset (User t))))
             (map nextTuple scs) = scs"
    by (induction scs) auto
  from h(1,2,3) n f show ?thesis by blast
qed

theorem C5_next_preserves_engine_order_witness:
  "Execute example_query =
     ((Some example_iterator, None),
      [DB_Beginx, DB_Queryx example_sql, SetFinalizer example_sql, Tx_Rollback 1])
   \<and> scans example_rows
       = map Inr [(''doc'', ''42'', ''viewer'', ''user'', ''alice'', []),
                  (''doc'', ''42'', ''viewer'', ''user'', ''bob'', [])]
   \<and> nexts 2 example_iterator
       = ([Some \<lparr>ObjectAndRelation =
                   \<lparr>Namespace = ''doc'', ObjectId = ''42'', Relation = ''viewer''\<rparr>,
                 User = User_Userset
                   \<lparr>Namespace = ''user'', ObjectId = ''alice'', Relation = []\<rparr>\<rparr>,
           Some \<lparr>ObjectAndRelation =
                   \<lparr>Namespace = ''doc'', ObjectId = ''42'', Relation = ''viewer''\<rparr>,
                 User = User_Userset
                   \<lparr>Namespace = ''user'', ObjectId = ''bob'', Relation = []\<rparr>\<rparr>],
          example_iterator\<lparr>tuples := []\<rparr>)"
proof -
  from C5_next_preserves_engine_order[OF example_Execute] obtain sql rows scs ts where
    h: "Queryx (pgTupleQuery.db example_query) sql = Inr rows" "scans rows = map Inr scs"
       "nexts (length scs) example_iterator
          = (map Some ts, example_iterator\<lparr>tuples := []\<rparr>)"
       "map (\<lambda>t. (Namespace (ObjectAndRelation t), ObjectId (ObjectAndRelation t),
                      Relation (ObjectAndRelation t), Namespace (Userset (User t)),
                      ObjectId (Userset (User t)), Relation (Userset (User t)))) ts
             = scs"
    by blast
  from h(1) have rows: "rows = example_rows" by (simp add: example_db_simps)
  from h(2) have "scans example_rows = map Inr scs" unfolding rows .
  then have scs: "scs = [(''doc'', ''42'', ''viewer'', ''user'', ''alice'', []),
                         (''doc'', ''42'', ''viewer'', ''user'', ''bob'', [])]"
    by (auto simp: example_rows_def alice_row_def bob_row_def)
  then have l: "length scs = 2" by simp
  from h(4) obtain t1 t2 where ts: "ts = [t1, t2]"
    and f1: "(Namespace (ObjectAndRelation t1), ObjectId (ObjectAndRelation t1),
              Relation (ObjectAndRelation t1), Namespace (Userset (User t1)),
              ObjectId (Userset (User t1)), Relation (Userset (User t1)))
             = (''doc'', ''42'', ''viewer'', ''user'', ''alice'', [])"
    and f2: "(Namespace (ObjectAndRelation t2), ObjectId (ObjectAndRelation t2),
              Relation (ObjectAndRelation t2), Namespace (Userset (User t2)),
              ObjectId (Userset (User t2)), Relation (Userset (User t2)))
             = (''doc'', ''42'', ''viewer'', ''user'', ''bob'', [])"
    unfolding scs by auto
  have t1: "t1 = \<lparr>ObjectAndRelation =
                   \<lparr>Namespace = ''doc'', ObjectId = ''42'', Relation = ''viewer''\<rparr>,
                 User = User_Userset
                   \<lparr>Namespace = ''user'', ObjectId = ''alice'', Relation = []\<rparr>\<rparr>"
    using f1 by (cases t1, cases "User t1") auto
  have t2: "t2 = \<lparr>ObjectAndRelation =
                   \<lparr>Namespace = ''doc'', ObjectId = ''42'', Relation = ''viewer''\<rparr>,
                 User = User_Userset
                   \<lparr>Namespace = ''user'', ObjectId = ''bob'', Relation = []\<rparr>\<rparr>"
    using f2 by (cases t2, cases "User t2") auto
  from h(3) have "nexts 2 example_iterator
          = (map Some ts, example_iterator\<lparr>tuples := []\<rparr>)"
    unfolding l .
  then have n: "nexts 2 example_iterator
          = ([Some t1, Some t2], example_iterator\<lparr>tuples := []\<rparr>)"
    unfolding ts by simp
  have s: "scans example_rows
       = map Inr [(''doc'', ''42'', ''viewer'', ''user'', ''alice'', []),
                  (''doc'', ''42'', ''viewer'', ''user'', ''bob'', [])]"
    by (simp add: example_rows_def alice_row_def bob_row_def)
  from example_Execute s n show ?thesis unfolding t1 t2 by blast
qed

text \<open>
  C6: on an open iterator with an empty error slot, once the tuples are drained
  any number of further \<open>Next\<close> calls return nothing, change nothing and leave
  \<open>Err\<close> empty; and after \<open>Close\<close>, every \<open>Next\<close> returns nothing and \<open>Err\<close>
  then reports the closed-iterator error.
\<close>

theorem C6_exhausted_then_closed:
  assumes "\<not> closed pti" and "err pti = None"
  shows "(tuples pti = [] \<longrightarrow>
            nexts k pti = (replicate k None, pti) \<and> Err (snd (nexts k pti)) = None)
       \<and> (\<exists>pti'. Close pti = Inr pti'
             \<and> fst (nexts (Suc m) pti') = replicate (Suc m) None
             \<and> Err (snd (nexts (Suc m) pti')) = Some errClosedIterator)"
proof -
  have a: "tuples pti = [] \<longrightarrow>
            nexts k pti = (replicate k None, pti) \<and> Err (snd (nexts k pti)) = None"
    using assms by (simp add: nexts_exhausted Err_def)
  have c: "Close pti = Inr (pti\<lparr>tuples := [], closed := True\<rparr>)"
    using assms by (simp add: Close_def)
  have d: "nexts (Suc m) (pti\<lparr>tuples := [], closed := True\<rparr>)
     = (replicate (Suc m) None,
        pti\<lparr>tuples := [], closed := True\<rparr>\<lparr>err := Some errClosedIterator\<rparr>)"
    by (rule nexts_closed) simp
  have "fst (nexts (Suc m) (pti\<lparr>tuples := [], closed := True\<rparr>)) = replicate (Suc m) None
      \<and> Err (snd (nexts (Suc m) (pti\<lparr>tuples := [], closed := True\<rparr>))) = Some errClosedIterator"
    unfolding d by (simp add: Err_def)
  with a c show ?thesis by blast
qed

theorem C6_exhausted_then_closed_witness:
  "\<not> closed (example_iterator\<lparr>tuples := []\<rparr>)
   \<and> err (example_iterator\<lparr>tuples := []\<rparr>) = None
   \<and> tuples (example_iterator\<lparr>tuples := []\<rparr>) = []
   \<and> nexts 3 (example_iterator\<lparr>tuples := []\<rparr>)
       = (replicate 3 None, example_iterator\<lparr>tuples := []\<rparr>)
   \<and> Err (snd (nexts 3 (example_iterator\<lparr>tuples := []\<rparr>))) = None
   \<and> (\<exists>pti'. Close (example_iterator\<lparr>tuples := []\<rparr>) = Inr pti'
         \<and> fst (nexts (Suc 1) pti') = replicate (Suc 1) None
         \<and> Err (snd (nexts (Suc 1) pti')) = Some errClosedIterator)"
proof -
  have h: "\<not> closed (example_iterator\<lparr>tuples := []\<rparr>)"
          "err (example_iterator\<lparr>tuples := []\<rparr>) = None"
          "tuples (example_iterator\<lparr>tuples := []\<rparr>) = []"
    by (simp_all add: example_iterator_def)
  from C6_exhausted_then_closed[OF h(1) h(2), of 3 1] h
  show ?thesis by blast
qed

text \<open>
  C7: on an iterator that has not been closed, the first \<open>Close\<close> returns, leaves
  no buffered tuples and sets the closed flag; a second \<open>Close\<close> on the result
  panics with "postgres iterator double closed".
\<close>

theorem C7_close_then_double_close_panics:
  assumes "\<not> closed pti"
  shows "\<exists>pti'. Close pti = Inr pti' \<and> tuples pti' = [] \<and> closed pti'
           \<and> err pti' = err pti
           \<and> Close pti' = Inl (PanicString ''postgres iterator double closed'')"
  using assms by (simp add: Close_def)

theorem C7_close_then_double_close_panics_witness:
  "\<not> closed example_iterator
   \<and> (\<exists>pti'. Close example_iterator = Inr pti'
         \<and> tuples pti' = [] \<and> closed pti'
         \<and> err pti' = err example_iterator
         \<and> Close pti' = Inl (PanicString ''postgres iterator double closed''))"
proof -
  have h: "\<not> closed example_iterator" by (simp add: example_iterator_def)
  from C7_close_then_double_close_panics[OF h] h show ?thesis by blast
qed

text \<open>
  C9 does not hold of every abandoned iterator. The leak check is a finalizer,
  and the runtime need not run it: the iterator of the example, dropped after one
  \<open>Next\<close> and never closed, can end with nothing raised.
\<close>

theorem C9_abandoned_open_iterator_counterexample:
  "Execute example_query =
     ((Some example_iterator, None),
      [DB_Beginx, DB_Queryx example_sql, SetFinalizer example_sql, Tx_Rollback 1])
   \<and> run example_iterator [CallNext] = Inr (example_iterator\<lparr>tuples := [bob_tuple]\<rparr>)
   \<and> \<not> closed (example_iterator\<lparr>tuples := [bob_tuple]\<rparr>)
   \<and> None \<in> set (abandoned
                   [DB_Beginx, DB_Queryx example_sql, SetFinalizer example_sql, Tx_Rollback 1]
                   (example_iterator\<lparr>tuples := [bob_tuple]\<rparr>))"
proof -
  have r: "run example_iterator [CallNext] = Inr (example_iterator\<lparr>tuples := [bob_tuple]\<rparr>)"
    by (simp add: Next_def example_iterator_def)
  have c: "\<not> closed (example_iterator\<lparr>tuples := [bob_tuple]\<rparr>)"
    by (simp add: example_iterator_def)
  have n: "None \<in> set (abandoned
                   [DB_Beginx, DB_Queryx example_sql, SetFinalizer example_sql, Tx_Rollback 1]
                   (example_iterator\<lparr>tuples := [bob_tuple]\<rparr>))"
    by (simp add: abandoned_def)
  from example_Execute r c n show ?thesis by blast
qed

text \<open>
  C9, amended: \<open>Execute\<close> registers one finalizer on the iterator it returns,
  holding the compiled statement. Whatever the consumer did with the iterator
  without panicking before dropping it, two things can come of it: the finalizer
  never runs and nothing is raised, or it runs, and then it panics exactly when
  the iterator is not closed, that is when \<open>Close\<close> was never called, with a
  panic that carries the abandoned iterator's statement; run on a closed
  iterator it raises nothing.
\<close>

theorem C9_leak_check_panics_iff_not_closed:
  assumes "Execute ptq = ((Some iter, e), effs)" and "run iter cs = Inr iter'"
  shows "closed iter' = (CallClose \<in> set cs)
       \<and> (\<exists>sql. ToSql (query ptq) = Inr sql
             \<and> abandoned effs iter' = [None, finalizer sql iter']
             \<and> finalizer sql iter' =
                 (if closed iter' then None
                  else Some (PanicSprintf
        ''Tuple iterator garbage collected before Close() was called\<newline> sql: %s\<newline> args: %#v\<newline>''
                    sql)))"
proof -
  from Execute_Some[OF assms(1)] obtain tx sql scs where
    h: "ToSql (query ptq) = Inr sql"
       "iter = \<lparr>tuples = map nextTuple scs, closed = False, err = None\<rparr>"
       "effs = [DB_Beginx, DB_Queryx sql, SetFinalizer sql, Tx_Rollback tx]"
    by blast
  from run_closed[OF assms(2)] h(2) have c: "closed iter' = (CallClose \<in> set cs)"
    by simp
  have a: "abandoned effs iter' = [None, finalizer sql iter']"
    by (simp add: abandoned_def h(3))
  have f: "finalizer sql iter' =
                 (if closed iter' then None
                  else Some (PanicSprintf
        ''Tuple iterator garbage collected before Close() was called\<newline> sql: %s\<newline> args: %#v\<newline>''
                    sql))"
    by (simp add: finalizer_def)
  from h(1) c a f show ?thesis by blast
qed

theorem C9_leak_check_panics_iff_not_closed_witness:
  "Execute example_query =
     ((Some example_iterator, None),
      [DB_Beginx, DB_Queryx example_sql, SetFinalizer example_sql, Tx_Rollback 1])
   \<and> run example_iterator [CallNext, CallErr]
       = Inr (example_iterator\<lparr>tuples := [bob_tuple]\<rparr>)
   \<and> abandoned [DB_Beginx, DB_Queryx example_sql, SetFinalizer example_sql, Tx_Rollback 1]
        (example_iterator\<lparr>tuples := [bob_tuple]\<rparr>) =
        [None, Some (PanicSprintf
        ''Tuple iterator garbage collected before Close() was called\<newline> sql: %s\<newline> args: %#v\<newline>''
                  example_sql)]
   \<and> run example_iterator [CallNext, CallClose]
       = Inr (example_iterator\<lparr>tuples := [], closed := True\<rparr>)
   \<and> abandoned [DB_Beginx, DB_Queryx example_sql, SetFinalizer example_sql, Tx_Rollback 1]
        (example_iterator\<lparr>tuples := [], closed := True\<rparr>) = [None, None]"
proof -
  have r1: "run example_iterator [CallNext, CallErr]
              = Inr (example_iterator\<lparr>tuples := [bob_tuple]\<rparr>)"
    by (simp add: Next_def example_iterator_def)
  have r2: "run example_iterator [CallNext, CallClose]
              = Inr (example_iterator\<lparr>tuples := [], closed := True\<rparr>)"
    by (simp add: Next_def Close_def example_iterator_def)
  from C9_leak_check_panics_iff_not_closed[OF example_Execute r1] example_ToSql
  have f1: "abandoned [DB_Beginx, DB_Queryx example_sql, SetFinalizer example_sql, Tx_Rollback 1]
        (example_iterator\<lparr>tuples := [bob_tuple]\<rparr>) =
        [None, Some (PanicSprintf
        ''Tuple iterator garbage collected before Close() was called\<newline> sql: %s\<newline> args: %#v\<newline>''
                  example_sql)]"
    by auto
  from C9_leak_check_panics_iff_not_closed[OF example_Execute r2] example_ToSql
  have f2: "abandoned [DB_Beginx, DB_Queryx example_sql, SetFinalizer example_sql, Tx_Rollback 1]
        (example_iterator\<lparr>tuples := [], closed := True\<rparr>) = [None, None]"
    by auto
  from example_Execute r1 f1 r2 f2 show ?thesis by blast
qed

text \<open>
  C10: follow an iterator from \<open>Execute\<close> through any calls that do not panic.
  Its error slot is empty unless some \<open>Next\<close> came after the \<open>Close\<close>, and is
  then the closed-iterator error. One more call changes the slot only if it is a
  \<open>Next\<close> on a closed iterator, which writes that same error. Once the error
  is there, it is still there after any further calls.
\<close>

theorem C10_error_slot_written_only_by_next_after_close:
  assumes "Execute ptq = ((Some iter, e), effs)"
      and "run iter cs = Inr pti" and "step pti c = Inr pti'" and "run pti' cs' = Inr pti''"
  shows "Err pti = (if next_after_close cs then Some errClosedIterator else None)
       \<and> Err pti' = (if c = CallNext \<and> closed pti then Some errClosedIterator else Err pti)
       \<and> (Err pti' = Some errClosedIterator \<longrightarrow> Err pti'' = Some errClosedIterator)"
proof -
  from Execute_Some[OF assms(1)] have i: "\<not> closed iter" "err iter = None"
    by auto
  from run_err_open[OF assms(2) i(1)] i(2)
  have a: "Err pti = (if next_after_close cs then Some errClosedIterator else None)"
    by (simp add: Err_def)
  from step_err[OF assms(3)]
  have b: "Err pti' = (if c = CallNext \<and> closed pti then Some errClosedIterator else Err pti)"
    by (simp add: Err_def)
  have c: "Err pti' = Some errClosedIterator \<longrightarrow> Err pti'' = Some errClosedIterator"
    using run_err_persists[OF assms(4)] by (simp add: Err_def)
  from a b c show ?thesis by blast
qed

theorem C10_error_slot_written_only_by_next_after_close_witness:
  "Execute example_query =
     ((Some example_iterator, None),
      [DB_Beginx, DB_Queryx example_sql, SetFinalizer example_sql, Tx_Rollback 1])
   \<and> run example_iterator [CallNext, CallClose]
       = Inr (example_iterator\<lparr>tuples := [], closed := True\<rparr>)
   \<and> step (example_iterator\<lparr>tuples := [], closed := True\<rparr>) CallNext
       = Inr (example_iterator\<lparr>tuples := [], closed := True, err := Some errClosedIterator\<rparr>)
   \<and> run (example_iterator\<lparr>tuples := [], closed := True, err := Some errClosedIterator\<rparr>)
         [CallErr, CallNext]
       = Inr (example_iterator\<lparr>tuples := [], closed := True, err := Some errClosedIterator\<rparr>)
   \<and> Err (example_iterator\<lparr>tuples := [], closed := True\<rparr>) = None
   \<and> Err (example_iterator\<lparr>tuples := [], closed := True, err := Some errClosedIterator\<rparr>)
       = Some errClosedIterator"
proof -
  have r1: "run example_iterator [CallNext, CallClose]
       = Inr (example_iterator\<lparr>tuples := [], closed := True\<rparr>)"
    by (simp add: Next_def Close_def example_iterator_def)
  have s: "step (example_iterator\<lparr>tuples := [], closed := True\<rparr>) CallNext
       = Inr (example_iterator\<lparr>tuples := [], closed := True, err := Some errClosedIterator\<rparr>)"
    by (simp add: Next_def)
  have r2: "run (example_iterator\<lparr>tuples := [], closed := True, err := Some errClosedIterator\<rparr>)
         [CallErr, CallNext]
       = Inr (example_iterator\<lparr>tuples := [], closed := True, err := Some errClosedIterator\<rparr>)"
    by (simp add: Next_def)
  from C10_error_slot_written_only_by_next_after_close[OF example_Execute r1 s r2]
  have "Err (example_iterator\<lparr>tuples := [], closed := True\<rparr>) = None"
       "Err (example_iterator\<lparr>tuples := [], closed := True, err := Some errClosedIterator\<rparr>)
          = Some errClosedIterator"
    by simp_all
  with example_Execute r1 s r2 show ?thesis by blast
qed

end
